theory Spec2Isabelle
  imports Main "HOL-Library.Multiset" "HOL-Library.List_Lexorder"
begin

section \<open>Calimate: a shallow embedding of \<^verbatim>\<open>src/calimate.py\<close>\<close>

text \<open>
  The program is one class, \<^verbatim>\<open>MainWindow\<close>, whose methods are event handlers.  Each
  handler is embedded as a function from the window's state to its new state.  What the
  handlers receive from outside the program (the file chosen in the dialog, what opening
  and reading it yields, what the instruments answer, the locale) is an explicit argument.
  Every \<^verbatim>\<open>raise\<close> of the Python is a value: a handler that lets an exception escape
  returns \<open>Inl\<close> of it.
\<close>

subsection \<open>Python exceptions and strings\<close>

text \<open>
  The classes the \<^verbatim>\<open>except\<close> clauses of the program tell apart, and those its own
  statements raise.  \<open>OtherException\<close> stands for every other subclass of
  \<^verbatim>\<open>Exception\<close>.  The string is \<^verbatim>\<open>str(e)\<close>.
\<close>

datatype exc_class =
  CsvError | FileNotFoundError | ValueError | IndexError | AttributeError | OtherException

datatype py_exception = Exc exc_class string

fun exc_class_of :: "py_exception \<Rightarrow> exc_class" where
  "exc_class_of (Exc c m) = c"

fun exc_str :: "py_exception \<Rightarrow> string" where
  "exc_str (Exc c m) = m"

text \<open>\<^verbatim>\<open>xs[i]\<close> for a non-negative index.\<close>

definition py_index :: "'a list \<Rightarrow> nat \<Rightarrow> py_exception + 'a" where
  "py_index xs i =
     (if i < length xs then Inr (xs ! i) else Inl (Exc IndexError ''list index out of range''))"

text \<open>\<^verbatim>\<open>str(n)\<close> for a non-negative integer.\<close>

definition digit_char :: "nat \<Rightarrow> char" where
  "digit_char d = ''0123456789'' ! d"

function str_nat :: "nat \<Rightarrow> string" where
  "str_nat n = (if n < 10 then [digit_char n] else str_nat (n div 10) @ [digit_char (n mod 10)])"
  by pat_completeness auto
termination
  by (relation "measure (\<lambda>n. n)") auto

declare str_nat.simps [simp del]

text \<open>\<^verbatim>\<open>sub in s\<close> on strings.\<close>

fun startswith :: "string \<Rightarrow> string \<Rightarrow> bool" where
  "startswith s [] = True"
| "startswith [] (p # ps) = False"
| "startswith (c # cs) (p # ps) = (c = p \<and> startswith cs ps)"

fun str_contains :: "string \<Rightarrow> string \<Rightarrow> bool" where
  "str_contains sub [] = (sub = [])"
| "str_contains sub (c # cs) = (startswith (c # cs) sub \<or> str_contains sub cs)"

text \<open>
  \<^verbatim>\<open>s.strip()\<close>, \<^verbatim>\<open>s.replace(old, new)\<close> for a one-character \<^verbatim>\<open>old\<close>, and
  \<^verbatim>\<open>s.split(sep)\<close> for a one-character separator.  An identity string is ASCII (the
  transport decodes it as such), and these are the ASCII characters for which
  \<^verbatim>\<open>str.isspace\<close> holds.
\<close>

definition is_space :: "char \<Rightarrow> bool" where
  "is_space c = (of_char c \<in> {9, 10, 11, 12, 13, 28, 29, 30, 31, 32 :: nat})"

definition strip :: "string \<Rightarrow> string" where
  "strip s = rev (dropWhile is_space (rev (dropWhile is_space s)))"

definition replace :: "char \<Rightarrow> string \<Rightarrow> string \<Rightarrow> string" where
  "replace old new s = concat (map (\<lambda>c. if c = old then new else [c]) s)"

fun split :: "char \<Rightarrow> string \<Rightarrow> string list" where
  "split sep [] = [[]]"
| "split sep (c # cs) =
     (if c = sep then [] # split sep cs
      else (case split sep cs of [] \<Rightarrow> [[c]] | w # ws \<Rightarrow> (c # w) # ws))"

text \<open>\<^verbatim>\<open>os.path.basename\<close>: what follows the last slash.\<close>

definition basename :: "string \<Rightarrow> string" where
  "basename p = rev (takeWhile (\<lambda>c. c \<noteq> CHR ''/'') (rev p))"

text \<open>The apostrophe, for the texts that quote a name.\<close>

definition apos :: string where
  "apos = [CHR 0x27]"

text \<open>Right-justification to a minimal width, as a format width does for a number.\<close>

definition rjust :: "nat \<Rightarrow> string \<Rightarrow> string" where
  "rjust w s = replicate (w - length s) CHR '' '' @ s"

subsection \<open>The table widget\<close>

text \<open>
  \<^verbatim>\<open>QTableWidget\<close> is the toolkit's, not the program's; this is the part of its
  documented behaviour that the handlers use.  A table keeps its rows in display order;
  a row has one slot per column, empty (\<open>None\<close>) until \<^verbatim>\<open>setItem\<close> fills it.  An
  item carries the text and the properties the program sets on it.
\<close>

datatype color = QColor nat nat nat nat

record cell =
  cell_text :: string
  background :: "color option"
  editable :: bool

type_synonym table_row = "cell option list"

datatype sort_order = AscendingOrder | DescendingOrder

record table =
  tableItems :: "table_row list"
  sortingEnabled :: bool
  sortIndicatorSection :: nat
  sortIndicatorOrder :: sort_order

text \<open>\<^verbatim>\<open>self.columns = ("Test", "Result", "Notes")\<close>; the table is built with that many columns.\<close>

definition columns :: "string list" where
  "columns = [''Test'', ''Result'', ''Notes'']"

definition columnCount :: nat where
  "columnCount = length columns"

text \<open>\<^verbatim>\<open>self.columns.index(name)\<close>; \<open>None\<close> where Python raises \<^verbatim>\<open>ValueError\<close>.\<close>

fun columns_index :: "string \<Rightarrow> string list \<Rightarrow> nat option" where
  "columns_index name [] = None"
| "columns_index name (c # cs) =
     (if c = name then Some 0 else map_option Suc (columns_index name cs))"

definition rowCount :: "table \<Rightarrow> nat" where
  "rowCount t = length (tableItems t)"

text \<open>\<^verbatim>\<open>item(row, column)\<close>: the item, or nothing when the slot is empty or out of range.\<close>

definition item :: "table \<Rightarrow> nat \<Rightarrow> nat \<Rightarrow> cell option" where
  "item t row col =
     (if row < rowCount t \<and> col < length (tableItems t ! row) then tableItems t ! row ! col
      else None)"

text \<open>\<^verbatim>\<open>insertRow(row)\<close>: a row of empty slots before position \<open>row\<close>; refused beyond the end.\<close>

definition insertRow :: "nat \<Rightarrow> table \<Rightarrow> table" where
  "insertRow row t =
     (if row \<le> rowCount t
      then t\<lparr>tableItems := take row (tableItems t) @ [replicate columnCount None]
                               @ drop row (tableItems t)\<rparr>
      else t)"

text \<open>
  \<^verbatim>\<open>setItem(row, column, item)\<close>.  The program calls it only on the last row and
  only while sorting is disabled: there the widget ignores a column the table does not
  have, and the row stays where it is.
\<close>

definition setItem :: "nat \<Rightarrow> nat \<Rightarrow> cell \<Rightarrow> table \<Rightarrow> table" where
  "setItem row col it t =
     (if row < rowCount t \<and> col < length (tableItems t ! row)
      then t\<lparr>tableItems := (tableItems t)[row := (tableItems t ! row)[col := Some it]]\<rparr>
      else t)"

text \<open>
  \<^verbatim>\<open>item.setBackground(c)\<close> on the item object that \<^verbatim>\<open>setItem\<close> has just put at
  \<open>(row, col)\<close>: the table shows the same object, so the slot changes.
\<close>

definition setBackground :: "nat \<Rightarrow> nat \<Rightarrow> color \<Rightarrow> table \<Rightarrow> table" where
  "setBackground row col c t =
     (case item t row col of
        None \<Rightarrow> t
      | Some it \<Rightarrow> setItem row col (it\<lparr>background := Some c\<rparr>) t)"

definition clearContents :: "table \<Rightarrow> table" where
  "clearContents t = t\<lparr>tableItems := map (map (\<lambda>_. None)) (tableItems t)\<rparr>"

definition setRowCount :: "nat \<Rightarrow> table \<Rightarrow> table" where
  "setRowCount n t =
     t\<lparr>tableItems := take n (tableItems t)
                       @ replicate (n - rowCount t) (replicate columnCount None)\<rparr>"

text \<open>
  Sorting by a column.  The rows with an item in that column are sorted stably by the
  items' texts and come first; the rows without one follow in their old order.  The
  toolkit compares two texts in the current locale; \<open>collate\<close> gives a text its
  collation key there, an element of a linear order.
\<close>

definition has_item :: "nat \<Rightarrow> table_row \<Rightarrow> bool" where
  "has_item col r = (col < length r \<and> r ! col \<noteq> None)"

definition sort_text :: "nat \<Rightarrow> table_row \<Rightarrow> string" where
  "sort_text col r =
     (if col < length r then (case r ! col of None \<Rightarrow> [] | Some c \<Rightarrow> cell_text c)
      else [])"

definition sort_rows ::
  "(string \<Rightarrow> 'k::linorder) \<Rightarrow> nat \<Rightarrow> sort_order \<Rightarrow> table_row list \<Rightarrow> table_row list" where
  "sort_rows collate col ord rs =
     (let sortable = filter (has_item col) rs;
          unsortable = filter (\<lambda>r. \<not> has_item col r) rs;
          key = (\<lambda>r. collate (sort_text col r))
      in (case ord of
            AscendingOrder \<Rightarrow> sort_key key sortable
          | DescendingOrder \<Rightarrow> rev (sort_key key (rev sortable)))
         @ unsortable)"

text \<open>
  \<^verbatim>\<open>setSortingEnabled(enable)\<close>: enabling sorts at once by the header's current sort
  indicator.  \<^verbatim>\<open>sortItems(column, order)\<close> sorts and moves the indicator.
\<close>

definition setSortingEnabled ::
  "(string \<Rightarrow> 'k::linorder) \<Rightarrow> bool \<Rightarrow> table \<Rightarrow> table" where
  "setSortingEnabled collate enable t =
     (if enable
      then t\<lparr>tableItems := sort_rows collate (sortIndicatorSection t) (sortIndicatorOrder t)
                                (tableItems t),
             sortingEnabled := True\<rparr>
      else t\<lparr>sortingEnabled := False\<rparr>)"

definition sortItems ::
  "(string \<Rightarrow> 'k::linorder) \<Rightarrow> nat \<Rightarrow> sort_order \<Rightarrow> table \<Rightarrow> table" where
  "sortItems collate col ord t =
     t\<lparr>tableItems := sort_rows collate col ord (tableItems t),
       sortIndicatorSection := col, sortIndicatorOrder := ord\<rparr>"

subsection \<open>The main window\<close>

text \<open>
  The widgets and class attributes the handlers read and write, the selector controls of
  the instrument panel (each by its label), and what the program has sent outside: the
  lines printed to the console and the transport and file-system calls, in order.
\<close>

datatype io_event =
  OpenResource string
| Query string string
| Write string string
| Close string
| PathExists string
| JsonLoad string
| AddWidget string

record main_window =
  data_table :: table
  inst_textbox :: string
  status_bar :: string
  invalid_packet_count :: nat
  messages_count :: nat
  csv_file_name :: "string option"
  inst_button_container :: "string list"
  console :: "string list"
  io_trace :: "io_event list"

text \<open>What an f-string makes of \<^verbatim>\<open>None\<close> or of a value given by its text.\<close>

definition str_opt :: "string option \<Rightarrow> string" where
  "str_opt v = (case v of None \<Rightarrow> ''None'' | Some s \<Rightarrow> s)"

definition print :: "string \<Rightarrow> main_window \<Rightarrow> main_window" where
  "print line w = w\<lparr>console := console w @ [line]\<rparr>"

definition emit :: "io_event \<Rightarrow> main_window \<Rightarrow> main_window" where
  "emit ev w = w\<lparr>io_trace := io_trace w @ [ev]\<rparr>"

text \<open>\<^verbatim>\<open>update_status_bar\<close>: an empty (or absent) message shows the row count.\<close>

definition update_status_bar :: "string \<Rightarrow> main_window \<Rightarrow> main_window" where
  "update_status_bar message w =
     (if message \<noteq> []
      then w\<lparr>status_bar := message\<rparr>
      else w\<lparr>status_bar := ''Total packets: '' @ str_nat (rowCount (data_table w))\<rparr>)"

subsection \<open>\<^verbatim>\<open>add_data_to_table\<close> (lines 213 to 267)\<close>

text \<open>
  The first loop: a field equal to \<^verbatim>\<open>"Msg"\<close> makes the row a message row and counts
  one message.  The state is \<open>(is_msg_row, messages_count)\<close>.
\<close>

fun scan_msg :: "string list \<Rightarrow> bool \<times> nat \<Rightarrow> bool \<times> nat" where
  "scan_msg [] s = s"
| "scan_msg (data_item # rest) (is_msg_row, n) =
     scan_msg rest (if data_item = ''Msg'' then (True, n + 1) else (is_msg_row, n))"

text \<open>The body of the second loop, for one field, and the loop over \<^verbatim>\<open>enumerate(row_data)\<close>.\<close>

definition fill_cell :: "nat \<Rightarrow> bool \<Rightarrow> nat \<Rightarrow> string \<Rightarrow> table \<Rightarrow> table" where
  "fill_cell row is_msg_row col_index data_item t =
     (let it = \<lparr>cell_text = data_item, background = None, editable = False\<rparr>;
          t1 = setItem row col_index it t;
          t2 = (if Some col_index = columns_index ''Result'' columns
                then (if is_msg_row then setBackground row col_index (QColor 33 150 243 64) t1
                      else if data_item = ''Pass''
                           then setBackground row col_index (QColor 76 175 80 64) t1
                      else if data_item = ''Fail''
                           then setBackground row col_index (QColor 244 67 54 64) t1
                      else t1)
                else t1)
      in (if Some col_index = columns_index ''Notes'' columns
          then (if is_msg_row then setBackground row col_index (QColor 33 150 243 64) t2
                else t2)
          else t2))"

fun fill_cells :: "nat \<Rightarrow> bool \<Rightarrow> nat \<Rightarrow> string list \<Rightarrow> table \<Rightarrow> table" where
  "fill_cells row is_msg_row col_index [] t = t"
| "fill_cells row is_msg_row col_index (data_item # rest) t =
     fill_cells row is_msg_row (Suc col_index) rest
       (fill_cell row is_msg_row col_index data_item t)"

text \<open>
  The import calls the method with \<^verbatim>\<open>adjust_row_height=False\<close>; row heights are
  geometry and are left out.
\<close>

definition add_data_to_table ::
  "(string \<Rightarrow> 'k::linorder) \<Rightarrow> string list \<Rightarrow> main_window \<Rightarrow> main_window" where
  "add_data_to_table collate row_data w =
     (let t0 = setSortingEnabled collate False (data_table w);
          row = rowCount t0;
          t1 = insertRow row t0;
          (is_msg_row, n) = scan_msg row_data (False, messages_count w);
          t2 = fill_cells row is_msg_row 0 row_data t1
      in w\<lparr>data_table := setSortingEnabled collate True t2, messages_count := n\<rparr>)"

text \<open>
  The item the second loop leaves in column \<open>c\<close> for the field \<open>d\<close>, by the branches of
  lines 239 to 254; \<open>m\<close> is \<^verbatim>\<open>is_msg_row\<close>.
\<close>

definition styled_item :: "bool \<Rightarrow> nat \<Rightarrow> string \<Rightarrow> cell" where
  "styled_item m c d =
     \<lparr>cell_text = d,
      background = (if m then (if c = 1 \<or> c = 2 then Some (QColor 33 150 243 64) else None)
                    else if c = 1 \<and> d = ''Pass'' then Some (QColor 76 175 80 64)
                    else if c = 1 \<and> d = ''Fail'' then Some (QColor 244 67 54 64)
                    else None),
      editable = False\<rparr>"

subsection \<open>\<^verbatim>\<open>update_inst\<close> (lines 273 to 308)\<close>

text \<open>
  The handler of a selection change.  \<open>selected_rows\<close> are the row numbers the selection
  model reports; \<open>format_n\<close> is Python's locale-aware number format \<^verbatim>\<open>{:n}\<close>.  Calling
  \<^verbatim>\<open>.text()\<close> on the \<^verbatim>\<open>None\<close> that \<^verbatim>\<open>item\<close> returns for an empty slot raises
  \<^verbatim>\<open>AttributeError\<close>, and the method has no \<^verbatim>\<open>try\<close>.
\<close>

definition none_has_no_text :: py_exception where
  "none_has_no_text = Exc AttributeError (apos @ ''NoneType' object has no attribute 'text'' @ apos)"

definition not_in_tuple :: py_exception where
  "not_in_tuple = Exc ValueError ''tuple.index(x): x not in tuple''"

definition update_inst ::
  "(nat \<Rightarrow> string) \<Rightarrow> nat list \<Rightarrow> main_window \<Rightarrow> py_exception + main_window" where
  "update_inst format_n selected_rows w =
     (case selected_rows of
        [] \<Rightarrow> Inr w
      | sel # _ \<Rightarrow>
        (case columns_index ''Notes'' columns of
           None \<Rightarrow> Inl not_in_tuple
         | Some packet_column_index \<Rightarrow>
        (case item (data_table w) sel packet_column_index of
           None \<Rightarrow> Inl none_has_no_text
         | Some packet_item \<Rightarrow>
        (case columns_index ''Result'' columns of
           None \<Rightarrow> Inl not_in_tuple
         | Some dir_column_index \<Rightarrow>
        (case item (data_table w) sel dir_column_index of
           None \<Rightarrow> Inl none_has_no_text
         | Some dir_item \<Rightarrow>
           (if str_contains ''Msg'' (cell_text dir_item)
            then Inr (w\<lparr>inst_textbox := ''Message:\<newline>- '' @ cell_text packet_item\<rparr>)
            else Inr (update_status_bar
                        (''File: '' @ apos @ str_opt (csv_file_name w) @ apos @ '', ''
                         @ ''Selected record: '' @ format_n (sel + 1)
                         @ '' of '' @ format_n (rowCount (data_table w)) @ ''.'')
                        (w\<lparr>inst_textbox := cell_text packet_item\<rparr>))))))))"

subsection \<open>\<^verbatim>\<open>import_table_from_csv\<close> (lines 310 to 395)\<close>

text \<open>
  What the handler gets from outside: the path the file dialog returns (empty when the
  user cancels) and, for a path, what \<^verbatim>\<open>open\<close> and the iteration of \<^verbatim>\<open>csv.reader\<close>
  do.  The reader is an iterator: it yields \<open>records\<close> one by one and then either stops
  or raises, with \<^verbatim>\<open>reader.line_num\<close> standing at the line it had reached.
\<close>

record csv_file =
  records :: "string list list"
  failure :: "(nat \<times> py_exception) option"

record file_env =
  getOpenFileName :: string
  open_file :: "string \<Rightarrow> py_exception + csv_file"

text \<open>
  The four \<^verbatim>\<open>except\<close> clauses, tried in the order of the source.  \<open>line_num\<close> is
  \<open>None\<close> while the name \<^verbatim>\<open>reader\<close> is unbound, that is, when \<^verbatim>\<open>open\<close> itself
  raised; reading it then raises in the handler.
\<close>

definition show_error :: "string \<Rightarrow> main_window \<Rightarrow> main_window" where
  "show_error error_msg w =
     update_status_bar error_msg
       (w\<lparr>inst_textbox := ''ERROR! File: '' @ apos @ str_opt (csv_file_name w) @ apos @ ''\<newline>\<newline>''
                            @ ''- '' @ error_msg\<rparr>)"

definition reader_unbound :: py_exception where
  "reader_unbound =
     Exc OtherException ''local variable 'reader' referenced before assignment''"

definition import_except ::
  "nat option \<Rightarrow> py_exception \<Rightarrow> main_window \<Rightarrow> py_exception + main_window" where
  "import_except line_num e w =
     (if exc_class_of e = CsvError then
        (case line_num of
           None \<Rightarrow> Inl reader_unbound
         | Some n \<Rightarrow>
             (let error_msg = ''Error reading CSV file at line '' @ str_nat n @ '': '' @ exc_str e
              in Inr (show_error error_msg (print error_msg w))))
      else if exc_class_of e = FileNotFoundError then
        (let error_msg = ''File not found: '' @ exc_str e
         in Inr (show_error error_msg (print error_msg w)))
      else if exc_class_of e = ValueError then
        (let error_msg = ''ValueError: '' @ exc_str e
         in Inr (show_error error_msg (print error_msg (print (exc_str e) w))))
      else
        (let error_msg = ''Exception: '' @ exc_str e
         in Inr (show_error error_msg (print error_msg (print (exc_str e) w)))))"

definition import_table_from_csv ::
  "(string \<Rightarrow> 'k::linorder) \<Rightarrow> (nat \<Rightarrow> string) \<Rightarrow> file_env \<Rightarrow> main_window
     \<Rightarrow> py_exception + main_window" where
  "import_table_from_csv collate format_n env w =
     (let fileName = getOpenFileName env in
      if fileName = [] then Inr w
      else
       (let w1 = w\<lparr>csv_file_name := Some (basename fileName)\<rparr>;
            loading = ''Loading file '' @ apos @ str_opt (csv_file_name w1) @ apos @ ''...'';
            w2 = update_status_bar loading (w1\<lparr>inst_textbox := loading\<rparr>)
        in (case open_file env fileName of
             Inl e \<Rightarrow> import_except None e w2
           | Inr f \<Rightarrow>
              (let w3 = w2\<lparr>data_table := setRowCount 0 (clearContents (data_table w2)),
                          invalid_packet_count := 0, messages_count := 0,
                          inst_textbox := []\<rparr>;
                   w4 = w3\<lparr>data_table := setSortingEnabled collate False (data_table w3)\<rparr>;
                   w5 = fold (add_data_to_table collate) (records f) w4
               in (case failure f of
                    Some (line_num, e) \<Rightarrow> import_except (Some line_num) e w5
                  | None \<Rightarrow>
                     (let w6 = w5\<lparr>data_table :=
                                    sortItems collate 0 AscendingOrder
                                      (setSortingEnabled collate True (data_table w5))\<rparr>;
                          total_records = rowCount (data_table w6);
                          w7 = w6\<lparr>inst_textbox :=
                                    ''File: '' @ apos @ str_opt (csv_file_name w6) @ apos
                                    @ '' successfully imported\<newline>\<newline>''
                                    @ ''- Total records:   '' @ rjust 8 (format_n total_records)
                                    @ ''\<newline>''\<rparr>
                      in Inr (update_status_bar
                                (''File: '' @ apos @ str_opt (csv_file_name w7) @ apos @ ''. ''
                                 @ ''Total records: '' @ format_n total_records @ ''.'')
                                w7)))))))"

subsection \<open>\<^verbatim>\<open>find_inst\<close> (lines 142 to 195)\<close>

text \<open>
  What discovery gets from outside: the addresses the resource manager lists, what each
  transport call does for an address (\<open>Some e\<close> or \<open>Inl e\<close>: it raises \<open>e\<close>), whether a
  path exists, and what opening it and \<^verbatim>\<open>json.load\<close> give.  A loaded object is a
  dictionary from keys to values, a value being known by its text; anything else that
  JSON can hold is known by its type name, which is all the program can get out of it.
\<close>

datatype json_doc = JsonObject "string \<Rightarrow> string option" | JsonOther string

record visa_env =
  list_resources :: "py_exception + string list"
  open_resource :: "string \<Rightarrow> py_exception option"
  inst_query :: "string \<Rightarrow> string \<Rightarrow> py_exception + string"
  inst_write :: "string \<Rightarrow> string \<Rightarrow> py_exception option"
  inst_close :: "string \<Rightarrow> py_exception option"
  path_exists :: "string \<Rightarrow> bool"
  json_load :: "string \<Rightarrow> py_exception + json_doc"

definition has_no_get :: "string \<Rightarrow> py_exception" where
  "has_no_get ty = Exc AttributeError (apos @ ty @ apos @ '' object has no attribute 'get'' @ apos)"

text \<open>
  Lines 166 to 168: the name of the configuration file, from the first two fields of the
  identity with spaces turned into underscores and colons removed.  Lines 184 to 186: the
  label of the selector control, from the first four fields.  A missing field raises
  \<^verbatim>\<open>IndexError\<close>.
\<close>

definition json_filename_of :: "string \<Rightarrow> py_exception + string" where
  "json_filename_of inst_id =
     (let fn_inst = replace CHR '':'' [] (replace CHR '' '' ''_'' inst_id);
          fn_inst_list = split CHR '','' fn_inst in
     (case py_index fn_inst_list 0 of Inl e \<Rightarrow> Inl e | Inr fn0 \<Rightarrow>
     (case py_index fn_inst_list 1 of Inl e \<Rightarrow> Inl e | Inr fn1 \<Rightarrow>
        Inr (fn0 @ ''_'' @ fn1 @ ''.json''))))"

definition button_label :: "string \<Rightarrow> py_exception + string" where
  "button_label inst_id =
     (let inst_list = split CHR '','' inst_id in
     (case py_index inst_list 0 of Inl e \<Rightarrow> Inl e | Inr i0 \<Rightarrow>
     (case py_index inst_list 1 of Inl e \<Rightarrow> Inl e | Inr i1 \<Rightarrow>
     (case py_index inst_list 2 of Inl e \<Rightarrow> Inl e | Inr i2 \<Rightarrow>
     (case py_index inst_list 3 of Inl e \<Rightarrow> Inl e | Inr i3 \<Rightarrow>
        Inr (i0 @ '' '' @ i1 @ ''\<newline>S/N: '' @ i2 @ ''\<newline>Ver: '' @ i3))))))"

text \<open>
  Lines 172 to 189, the branch taken when the configuration file exists: load it, read
  the three commands, print them and add the selector control.
\<close>

definition load_config ::
  "visa_env \<Rightarrow> string \<Rightarrow> string \<Rightarrow> main_window \<Rightarrow> main_window \<times> py_exception option" where
  "load_config env inst_id json_filename w5 =
     (let w6 = emit (JsonLoad json_filename) w5 in
     (case json_load env json_filename of Inl e \<Rightarrow> (w6, Some e) | Inr data \<Rightarrow>
     (case data of JsonOther ty \<Rightarrow> (w6, Some (has_no_get ty)) | JsonObject d \<Rightarrow>
     (let connect_cmd = d ''connect'';
          id_cmd = d ''id'';
          close_cmd = d ''close'';
          w7 = print (''Close Command: '' @ str_opt close_cmd)
                 (print (''ID Command: '' @ str_opt id_cmd)
                    (print (''Connect Command: '' @ str_opt connect_cmd) w6)) in
     (case button_label inst_id of Inl e \<Rightarrow> (w7, Some e) | Inr label \<Rightarrow>
        (emit (AddWidget label)
           (w7\<lparr>inst_button_container := inst_button_container w7 @ [label]\<rparr>),
         None))))))"

text \<open>
  The body of the \<^verbatim>\<open>try\<close> for one address (the loop variable \<^verbatim>\<open>item\<close>).  It returns the state it has reached and
  the exception that ended it, if one did.
\<close>

definition probe :: "visa_env \<Rightarrow> string \<Rightarrow> main_window \<Rightarrow> main_window \<times> py_exception option" where
  "probe env address w0 =
     (let w1 = emit (OpenResource address) w0 in
     (case open_resource env address of Some e \<Rightarrow> (w1, Some e) | None \<Rightarrow>
     (let w2 = emit (Query address ''*IDN?'') w1 in
     (case inst_query env address ''*IDN?'' of Inl e \<Rightarrow> (w2, Some e) | Inr response \<Rightarrow>
     (let inst_id = strip response;
          w3 = emit (Write address '':KEY:FORCe'') w2 in
     (case inst_write env address '':KEY:FORCe'' of Some e \<Rightarrow> (w3, Some e) | None \<Rightarrow>
     (let w4 = emit (Close address) w3 in
     (case inst_close env address of Some e \<Rightarrow> (w4, Some e) | None \<Rightarrow>
     (case json_filename_of inst_id of Inl e \<Rightarrow> (w4, Some e) | Inr json_filename \<Rightarrow>
     (let w5 = emit (PathExists json_filename) (print (''JSON filename: '' @ json_filename) w4) in
     (if path_exists env json_filename
      then load_config env inst_id json_filename w5
      else (print (''Configuration file '' @ json_filename @ '' not found.'') w5,
            None))))))))))))"

text \<open>
  The \<^verbatim>\<open>for\<close> loop with its \<^verbatim>\<open>except Exception\<close>, and the method: it empties the
  panel, asks for the addresses (outside any \<^verbatim>\<open>try\<close>) and runs the loop.
\<close>

fun find_inst_loop :: "visa_env \<Rightarrow> string list \<Rightarrow> main_window \<Rightarrow> main_window" where
  "find_inst_loop env [] w = w"
| "find_inst_loop env (address # rest) w =
     (case probe env address w of
        (w', None) \<Rightarrow> find_inst_loop env rest w'
      | (w', Some e) \<Rightarrow> find_inst_loop env rest (print (''Exception: '' @ exc_str e) w'))"

definition find_inst :: "visa_env \<Rightarrow> main_window \<Rightarrow> py_exception + main_window" where
  "find_inst env w =
     (case list_resources env of
        Inl e \<Rightarrow> Inl e
      | Inr inst_list \<Rightarrow> Inr (find_inst_loop env inst_list (w\<lparr>inst_button_container := []\<rparr>)))"

subsection \<open>What the specification says of a row, of the order and of a probe\<close>

text \<open>
  These definitions follow the words of the specification; the theorems compare
  them with the functions above.  A row is a message row when some field is literally
  \<^verbatim>\<open>Msg\<close>; a message row has the message colour on Result and Notes, another row
  green on a Result \<^verbatim>\<open>Pass\<close>, red on a Result \<^verbatim>\<open>Fail\<close>, and nothing otherwise.
  A record gives one row: a read-only item for each field that has a column.
\<close>

definition is_message_row :: "string list \<Rightarrow> bool" where
  "is_message_row row_data = (''Msg'' \<in> set row_data)"

definition highlight :: "string list \<Rightarrow> nat \<Rightarrow> color option" where
  "highlight row_data col =
     (if is_message_row row_data
      then (if col = 1 \<or> col = 2 then Some (QColor 33 150 243 64) else None)
      else if col = 1 \<and> row_data ! col = ''Pass'' then Some (QColor 76 175 80 64)
      else if col = 1 \<and> row_data ! col = ''Fail'' then Some (QColor 244 67 54 64)
      else None)"

definition table_row_of :: "string list \<Rightarrow> table_row" where
  "table_row_of row_data =
     map (\<lambda>col. if col < length row_data
                then Some \<lparr>cell_text = row_data ! col,
                           background = highlight row_data col, editable = False\<rparr>
                else None)
         [0..<columnCount]"

text \<open>The number of fields that are literally \<^verbatim>\<open>Msg\<close> in a list of records.\<close>

definition count_msg :: "string list list \<Rightarrow> nat" where
  "count_msg rs = length (filter (\<lambda>data_item. data_item = ''Msg'') (concat rs))"

text \<open>
  The message of a failed import, as the four handlers word it; for a malformed file it
  names the line the reader had reached.
\<close>

definition failure_message :: "nat \<Rightarrow> py_exception \<Rightarrow> string" where
  "failure_message line_num e =
     (if exc_class_of e = CsvError
      then ''Error reading CSV file at line '' @ str_nat line_num @ '': '' @ exc_str e
      else if exc_class_of e = FileNotFoundError then ''File not found: '' @ exc_str e
      else if exc_class_of e = ValueError then ''ValueError: '' @ exc_str e
      else ''Exception: '' @ exc_str e)"

definition error_pane :: "string \<Rightarrow> string \<Rightarrow> string" where
  "error_pane name error_msg =
     ''ERROR! File: '' @ apos @ name @ apos @ ''\<newline>\<newline>'' @ ''- '' @ error_msg"

text \<open>
  Ascending by the first column: of two rows, the later one has an item in column 0
  only if the earlier one has one too, with a collation key that is not greater.  Rows
  with no item in that column come last.
\<close>

definition first_column_ascending :: "(string \<Rightarrow> 'k::linorder) \<Rightarrow> table_row list \<Rightarrow> bool" where
  "first_column_ascending collate rs =
     sorted_wrt (\<lambda>a b. has_item 0 b \<longrightarrow>
                         has_item 0 a \<and> collate (sort_text 0 a) \<le> collate (sort_text 0 b)) rs"

text \<open>
  The transport calls of a probe all succeed, the identity query answering \<open>response\<close>.
  In a trace, \<open>precedes a b\<close>: after the first \<open>a\<close> there is a \<open>b\<close>.
\<close>

definition probes_ok :: "visa_env \<Rightarrow> string \<Rightarrow> string \<Rightarrow> bool" where
  "probes_ok env address response =
     (open_resource env address = None \<and>
      inst_query env address ''*IDN?'' = Inr response \<and>
      inst_write env address '':KEY:FORCe'' = None \<and>
      inst_close env address = None)"


text \<open>The number of rows a handler leaves in the table, when it returns.\<close>

definition rows_after :: "py_exception + main_window \<Rightarrow> nat option" where
  "rows_after r = (case r of Inl e \<Rightarrow> None | Inr w \<Rightarrow> Some (rowCount (data_table w)))"

subsection \<open>Concrete inputs\<close>

text \<open>
  The window as \<^verbatim>\<open>__init__\<close> leaves it (lines 33 to 140): an empty table with
  sorting enabled, the version text in the detail pane and the welcome in the status
  bar.  The collation of the C locale: texts compare by their character codes.
\<close>

definition init_window :: main_window where
  "init_window =
     \<lparr>data_table = \<lparr>tableItems = [], sortingEnabled = True, sortIndicatorSection = 0,
                     sortIndicatorOrder = DescendingOrder\<rparr>,
      inst_textbox = ''Calimate\<newline>Version 0.1'',
      status_bar = ''Welcome to Calimate!'',
      invalid_packet_count = 0, messages_count = 0, csv_file_name = None,
      inst_button_container = [], console = [], io_trace = []\<rparr>"

definition c_collate :: "string \<Rightarrow> nat list" where
  "c_collate s = map of_char s"

text \<open>
  A file of two records; a file of one record; a file whose second line makes the reader raise after the
  first record; a path that does not exist.
\<close>

definition two_records :: file_env where
  "two_records =
     \<lparr>getOpenFileName = ''/home/tech/run2.csv'',
      open_file = (\<lambda>path. Inr \<lparr>records = [[''T2'', ''Pass'', ''ok''], [''T1'', ''Fail'', ''low'']],
                                 failure = None\<rparr>)\<rparr>"

definition one_record :: file_env where
  "one_record =
     \<lparr>getOpenFileName = ''/home/tech/run3.csv'',
      open_file = (\<lambda>path. Inr \<lparr>records = [[''T9'', ''Msg'', ''note'']], failure = None\<rparr>)\<rparr>"

definition malformed :: file_env where
  "malformed =
     \<lparr>getOpenFileName = ''/home/tech/bad.csv'',
      open_file = (\<lambda>path. Inr \<lparr>records = [[''T1'', ''Pass'', ''ok'']],
                                 failure = Some (2, Exc CsvError ''field larger than field limit (131072)'')\<rparr>)\<rparr>"

definition no_such_file :: py_exception where
  "no_such_file =
     Exc FileNotFoundError
       (''[Errno 2] No such file or directory: '' @ apos @ ''/home/tech/gone.csv'' @ apos)"

definition missing :: file_env where
  "missing =
     \<lparr>getOpenFileName = ''/home/tech/gone.csv'',
      open_file = (\<lambda>path. Inl no_such_file)\<rparr>"

text \<open>The window with one row in the table, as an earlier import has left it.\<close>

definition one_row_window :: main_window where
  "one_row_window =
     init_window\<lparr>data_table :=
       \<lparr>tableItems = [table_row_of [''T0'', ''Pass'', ''first'']], sortingEnabled = True,
        sortIndicatorSection = 0, sortIndicatorOrder = AscendingOrder\<rparr>,
       csv_file_name := Some ''run1.csv''\<rparr>"

text \<open>
  The window after the import of a file whose one record is a message, and a window
  whose one row comes from a record of two fields.
\<close>

definition message_window :: main_window where
  "message_window =
     init_window\<lparr>data_table :=
       \<lparr>tableItems = [table_row_of [''T9'', ''Msg'', ''note'']], sortingEnabled = True,
        sortIndicatorSection = 0, sortIndicatorOrder = AscendingOrder\<rparr>,
       csv_file_name := Some ''run3.csv'',
       status_bar := ''File: 'run3.csv'. Total records: 1.''\<rparr>"

definition short_row_window :: main_window where
  "short_row_window =
     init_window\<lparr>data_table :=
       \<lparr>tableItems = [table_row_of [''T5'', ''Pass'']], sortingEnabled = True,
        sortIndicatorSection = 0, sortIndicatorOrder = AscendingOrder\<rparr>,
       csv_file_name := Some ''run4.csv''\<rparr>"

text \<open>
  A bench of five addresses: the first does not open; the second is an oscilloscope
  whose configuration file exists; the third has no configuration file; the fourth
  and the fifth answer with two fields and with one, the configuration file of the
  fourth existing.
\<close>

definition bench_idn :: "string \<Rightarrow> string" where
  "bench_idn address =
     (if address = ''GPIB0::2::INSTR'' then ''TEKTRONIX,TDS 210,0,CF:91.1CT FV:v1.16\<newline>''
      else if address = ''GPIB0::3::INSTR'' then ''ACME,X1,7,1.0\<newline>''
      else if address = ''GPIB0::4::INSTR'' then ''TEKTRONIX,TDS 210\<newline>''
      else ''ready\<newline>'')"

definition bench :: visa_env where
  "bench =
     \<lparr>list_resources = Inr [''GPIB0::1::INSTR'', ''GPIB0::2::INSTR'', ''GPIB0::3::INSTR'',
                             ''GPIB0::4::INSTR'', ''GPIB0::5::INSTR''],
      open_resource = (\<lambda>address. if address = ''GPIB0::1::INSTR''
                                  then Some (Exc OtherException ''VI_ERROR_TMO'') else None),
      inst_query = (\<lambda>address command. Inr (bench_idn address)),
      inst_write = (\<lambda>address command. None),
      inst_close = (\<lambda>address. None),
      path_exists = (\<lambda>path. path = ''TEKTRONIX_TDS_210.json''),
      json_load = (\<lambda>path. Inr (JsonObject
                     (map_of [(''connect'', '':SYST:REM''), (''id'', ''*IDN?''),
                              (''close'', '':SYST:LOC'')])))\<rparr>"

section \<open>Properties\<close>

subsection \<open>The table widget\<close>

lemma columns_index_Result: "columns_index ''Result'' columns = Some 1"
  by (simp add: columns_def)

lemma columns_index_Notes: "columns_index ''Notes'' columns = Some 2"
  by (simp add: columns_def)

lemma columnCount_3: "columnCount = 3"
  by (simp add: columnCount_def columns_def)

lemma length_sort_rows: "length (sort_rows collate col ord rs) = length rs"
proof -
  have "length (filter (has_item col) rs) + length (filter (\<lambda>r. \<not> has_item col r) rs) = length rs"
    by (rule sum_length_filter_compl)
  then show ?thesis
    by (cases ord) (simp_all add: sort_rows_def Let_def)
qed

lemma mset_sort_rows: "mset (sort_rows collate col ord rs) = mset rs"
  by (cases ord) (simp_all add: sort_rows_def Let_def)

lemma sort_rows_ascending:
  "first_column_ascending collate (sort_rows collate 0 AscendingOrder rs)"
proof -
  let ?key = "\<lambda>r. collate (sort_text 0 r)"
  let ?xs = "sort_key ?key (filter (has_item 0) rs)"
  let ?ys = "filter (\<lambda>r. \<not> has_item 0 r) rs"
  let ?P = "\<lambda>a b. has_item 0 b \<longrightarrow> has_item 0 a \<and> ?key a \<le> ?key b"
  have "sorted (map ?key ?xs)"
    by (rule sorted_sort_key)
  then have "sorted_wrt (\<lambda>a b. ?key a \<le> ?key b) ?xs"
    by (simp add: sorted_map)
  moreover have "\<forall>a \<in> set ?xs. has_item 0 a"
    by simp
  ultimately have xs: "sorted_wrt ?P ?xs"
    by (elim sorted_wrt_mono_rel[rotated]) simp
  have "sorted_wrt (\<lambda>a b. True) ?ys"
    by simp
  then have ys: "sorted_wrt ?P ?ys"
    by (rule sorted_wrt_mono_rel[rotated]) simp
  have cross: "\<forall>a \<in> set ?xs. \<forall>b \<in> set ?ys. ?P a b"
    by simp
  have "sorted_wrt ?P (?xs @ ?ys)"
    unfolding sorted_wrt_append using xs ys cross by blast
  then show ?thesis
    by (simp add: first_column_ascending_def sort_rows_def)
qed

lemma scan_msg_eq:
  "scan_msg row_data (m, n) =
     (m \<or> ''Msg'' \<in> set row_data, n + length (filter (\<lambda>d. d = ''Msg'') row_data))"
  by (induction row_data arbitrary: m n) auto

subsection \<open>Adding a row\<close>

lemma fill_cell_last:
  assumes "tableItems t = rs @ [cur]"
  shows "fill_cell (length rs) m c d t =
           t\<lparr>tableItems := rs @ [if c < length cur then cur[c := Some (styled_item m c d)] else cur]\<rparr>"
  using assms
  by (cases "c = 1"; cases "c = 2")
     (auto simp: fill_cell_def setItem_def setBackground_def item_def rowCount_def Let_def
        styled_item_def columns_index_Result columns_index_Notes nth_append list_update_append)

lemma fill_cells_last:
  assumes "tableItems t = rs @ [[x0, x1, x2]]"
  shows "fill_cells (length rs) m c ds t =
           t\<lparr>tableItems := rs @
              [map (\<lambda>j. if c \<le> j \<and> j < c + length ds then Some (styled_item m j (ds ! (j - c)))
                         else [x0, x1, x2] ! j) [0, 1, 2]]\<rparr>"
  using assms
proof (induction ds arbitrary: c t x0 x1 x2)
  case Nil
  then show ?case by auto
next
  case (Cons d ds)
  let ?t = "fill_cell (length rs) m c d t"
  have step: "?t = t\<lparr>tableItems := rs @ [if c < 3 then [x0, x1, x2][c := Some (styled_item m c d)]
                                            else [x0, x1, x2]]\<rparr>"
    using fill_cell_last [OF Cons.prems, of m c d] by simp
  consider "c = 0" | "c = 1" | "c = 2" | "3 \<le> c" by linarith
  then show ?case
  proof cases
    case 1
    then have "tableItems ?t = rs @ [[Some (styled_item m 0 d), x1, x2]]"
      using step by simp
    from Cons.IH [OF this, of "Suc c"] step 1 show ?thesis
      by simp
  next
    case 2
    then have "tableItems ?t = rs @ [[x0, Some (styled_item m 1 d), x2]]"
      using step by simp
    from Cons.IH [OF this, of "Suc c"] step 2 show ?thesis
      by simp
  next
    case 3
    then have "tableItems ?t = rs @ [[x0, x1, Some (styled_item m 2 d)]]"
      using step by simp
    from Cons.IH [OF this, of "Suc c"] step 3 show ?thesis
      by simp
  next
    case 4
    then have "tableItems ?t = rs @ [[x0, x1, x2]]"
      using step by simp
    from Cons.IH [OF this, of "Suc c"] step 4 show ?thesis
      by simp
  qed
qed

lemma upt_0_3: "[0..<3] = [0, 1, 2]"
  by (simp add: numeral_3_eq_3)

lemma table_row_of_eq:
  "table_row_of r =
     map (\<lambda>j. if j < length r then Some (styled_item (''Msg'' \<in> set r) j (r ! j)) else None)
       [0, 1, 2]"
  by (simp add: table_row_of_def columnCount_3 upt_0_3
        highlight_def is_message_row_def styled_item_def)

lemma fill_cells_new_row:
  assumes "tableItems t = rs @ [[None, None, None]]"
  shows "fill_cells (length rs) (''Msg'' \<in> set r) 0 r t = t\<lparr>tableItems := rs @ [table_row_of r]\<rparr>"
  by (simp add: fill_cells_last [OF assms] table_row_of_eq)

lemma add_data_to_table_eq:
  "add_data_to_table collate row_data w =
     w\<lparr>data_table := (data_table w)
          \<lparr>tableItems := sort_rows collate (sortIndicatorSection (data_table w))
                            (sortIndicatorOrder (data_table w))
                            (tableItems (data_table w) @ [table_row_of row_data]),
           sortingEnabled := True\<rparr>,
       messages_count := messages_count w + length (filter (\<lambda>d. d = ''Msg'') row_data)\<rparr>"
proof -
  let ?rs = "tableItems (data_table w)"
  let ?t0 = "setSortingEnabled collate False (data_table w)"
  let ?t1 = "insertRow (length ?rs) ?t0"
  have len: "rowCount ?t0 = length ?rs"
    by (simp add: rowCount_def setSortingEnabled_def)
  have t1: "tableItems ?t1 = ?rs @ [[None, None, None]]"
    by (simp add: insertRow_def rowCount_def setSortingEnabled_def columnCount_3
          numeral_3_eq_3)
  have fill: "fill_cells (length ?rs) (''Msg'' \<in> set row_data) 0 row_data ?t1 =
                ?t1\<lparr>tableItems := ?rs @ [table_row_of row_data]\<rparr>"
    by (rule fill_cells_new_row [OF t1])
  have "add_data_to_table collate row_data w =
          w\<lparr>data_table := setSortingEnabled collate True
                             (?t1\<lparr>tableItems := ?rs @ [table_row_of row_data]\<rparr>),
            messages_count := messages_count w + length (filter (\<lambda>d. d = ''Msg'') row_data)\<rparr>"
    unfolding add_data_to_table_def Let_def scan_msg_eq len
    by (simp add: fill)
  also have "setSortingEnabled collate True (?t1\<lparr>tableItems := ?rs @ [table_row_of row_data]\<rparr>) =
          (data_table w)
          \<lparr>tableItems := sort_rows collate (sortIndicatorSection (data_table w))
                            (sortIndicatorOrder (data_table w))
                            (?rs @ [table_row_of row_data]),
           sortingEnabled := True\<rparr>"
    by (simp add: insertRow_def setSortingEnabled_def rowCount_def)
  finally show ?thesis .
qed

subsection \<open>Importing a file\<close>

lemma fold_add_mset:
  "mset (tableItems (data_table (fold (add_data_to_table collate) rs w))) =
     mset (tableItems (data_table w)) + mset (map table_row_of rs)"
  by (induction rs arbitrary: w) (simp_all add: add_data_to_table_eq mset_sort_rows)

lemma fold_add_messages_count:
  "messages_count (fold (add_data_to_table collate) rs w) = messages_count w + count_msg rs"
  by (induction rs arbitrary: w) (simp_all add: add_data_to_table_eq count_msg_def)

lemma fold_add_frame:
  "invalid_packet_count (fold (add_data_to_table collate) rs w) = invalid_packet_count w \<and>
   csv_file_name (fold (add_data_to_table collate) rs w) = csv_file_name w \<and>
   inst_textbox (fold (add_data_to_table collate) rs w) = inst_textbox w \<and>
   status_bar (fold (add_data_to_table collate) rs w) = status_bar w \<and>
   console (fold (add_data_to_table collate) rs w) = console w \<and>
   io_trace (fold (add_data_to_table collate) rs w) = io_trace w \<and>
   inst_button_container (fold (add_data_to_table collate) rs w) = inst_button_container w"
  by (induction rs arbitrary: w) (simp_all add: add_data_to_table_eq)

lemma fold_add_length:
  "length (tableItems (data_table (fold (add_data_to_table collate) rs w))) =
     length (tableItems (data_table w)) + length rs"
  by (induction rs arbitrary: w) (simp_all add: add_data_to_table_eq length_sort_rows)

lemma import_completed:
  assumes "getOpenFileName env \<noteq> []"
    and "open_file env (getOpenFileName env) = Inr f"
    and "failure f = None"
  shows "\<exists>w'. import_table_from_csv collate format_n env w = Inr w' \<and>
           mset (tableItems (data_table w')) = mset (map table_row_of (records f)) \<and>
           rowCount (data_table w') = length (records f) \<and>
           first_column_ascending collate (tableItems (data_table w')) \<and>
           invalid_packet_count w' = 0 \<and>
           messages_count w' = count_msg (records f) \<and>
           csv_file_name w' = Some (basename (getOpenFileName env)) \<and>
           status_bar w' = ''File: '' @ apos @ basename (getOpenFileName env) @ apos @ ''. ''
                             @ ''Total records: '' @ format_n (length (records f)) @ ''.'' \<and>
           inst_textbox w' = ''File: '' @ apos @ basename (getOpenFileName env) @ apos
                             @ '' successfully imported\<newline>\<newline>''
                             @ ''- Total records:   '' @ rjust 8 (format_n (length (records f)))
                             @ ''\<newline>''"
  using assms
  apply (simp add: import_table_from_csv_def Let_def update_status_bar_def str_opt_def
       fold_add_frame fold_add_messages_count sortItems_def setSortingEnabled_def
       mset_sort_rows fold_add_mset rowCount_def length_sort_rows fold_add_length
       sort_rows_ascending
       setRowCount_def clearContents_def)
  done

lemma failure_message_nonempty: "failure_message n e \<noteq> []"
  by (simp add: failure_message_def)

lemma import_except_reports:
  assumes "line = Some n \<or> exc_class_of e \<noteq> CsvError"
  shows "\<exists>w'. import_except line e w = Inr w' \<and>
           data_table w' = data_table w \<and>
           status_bar w' = failure_message n e \<and>
           inst_textbox w' = error_pane (str_opt (csv_file_name w)) (failure_message n e)"
  using assms
  by (auto simp: import_except_def show_error_def update_status_bar_def print_def
        failure_message_def error_pane_def Let_def)

lemma import_read_failure:
  assumes "getOpenFileName env \<noteq> []"
    and "open_file env (getOpenFileName env) = Inr f"
    and "failure f = Some (n, e)"
  shows "\<exists>w'. import_table_from_csv collate format_n env w = Inr w' \<and>
           mset (tableItems (data_table w')) = mset (map table_row_of (records f)) \<and>
           rowCount (data_table w') = length (records f) \<and>
           status_bar w' = failure_message n e \<and>
           inst_textbox w' = error_pane (basename (getOpenFileName env)) (failure_message n e)"
proof -
  let ?w2 = "update_status_bar
               (''Loading file '' @ apos @ basename (getOpenFileName env) @ apos @ ''...'')
               (w\<lparr>csv_file_name := Some (basename (getOpenFileName env)),
                  inst_textbox := ''Loading file '' @ apos @ basename (getOpenFileName env)
                                  @ apos @ ''...''\<rparr>)"
  let ?w4 = "?w2\<lparr>data_table := setRowCount 0 (clearContents (data_table ?w2)),
                 invalid_packet_count := 0, messages_count := 0, inst_textbox := []\<rparr>
             \<lparr>data_table := setSortingEnabled collate False
                 (setRowCount 0 (clearContents (data_table ?w2)))\<rparr>"
  let ?w5 = "fold (add_data_to_table collate) (records f) ?w4"
  have run: "import_table_from_csv collate format_n env w = import_except (Some n) e ?w5"
    using assms by (simp add: import_table_from_csv_def Let_def str_opt_def)
  have rows: "mset (tableItems (data_table ?w5)) = mset (map table_row_of (records f))"
    by (simp add: fold_add_mset setSortingEnabled_def setRowCount_def clearContents_def)
  have len: "rowCount (data_table ?w5) = length (records f)"
    by (simp add: rowCount_def fold_add_length setSortingEnabled_def setRowCount_def
          clearContents_def)
  have name: "csv_file_name ?w5 = Some (basename (getOpenFileName env))"
    by (simp add: fold_add_frame update_status_bar_def)
  from import_except_reports [of "Some n" n e ?w5] obtain w'
    where "import_except (Some n) e ?w5 = Inr w'"
      and "data_table w' = data_table ?w5"
      and "status_bar w' = failure_message n e"
      and "inst_textbox w' = error_pane (str_opt (csv_file_name ?w5)) (failure_message n e)"
    by auto
  with run rows len name show ?thesis
    by (simp add: str_opt_def)
qed

lemma import_open_failure:
  assumes "getOpenFileName env \<noteq> []"
    and "open_file env (getOpenFileName env) = Inl e"
    and "exc_class_of e \<noteq> CsvError"
  shows "\<exists>w'. import_table_from_csv collate format_n env w = Inr w' \<and>
           data_table w' = data_table w \<and>
           status_bar w' = failure_message n e \<and>
           inst_textbox w' = error_pane (basename (getOpenFileName env)) (failure_message n e)"
proof -
  let ?w2 = "update_status_bar
               (''Loading file '' @ apos @ basename (getOpenFileName env) @ apos @ ''...'')
               (w\<lparr>csv_file_name := Some (basename (getOpenFileName env)),
                  inst_textbox := ''Loading file '' @ apos @ basename (getOpenFileName env)
                                  @ apos @ ''...''\<rparr>)"
  have run: "import_table_from_csv collate format_n env w = import_except None e ?w2"
    using assms by (simp add: import_table_from_csv_def Let_def str_opt_def)
  have frame: "data_table ?w2 = data_table w"
    "csv_file_name ?w2 = Some (basename (getOpenFileName env))"
    by (simp_all add: update_status_bar_def)
  from import_except_reports [of None n e ?w2] assms(3) obtain w'
    where "import_except None e ?w2 = Inr w'"
      and "data_table w' = data_table ?w2"
      and "status_bar w' = failure_message n e"
      and "inst_textbox w' = error_pane (str_opt (csv_file_name ?w2)) (failure_message n e)"
    by auto
  with run frame show ?thesis
    by (simp add: str_opt_def)
qed

text \<open>
  Claim C5.  For every row added to the table: it is a message row exactly when some
  field is literally \<^verbatim>\<open>Msg\<close>, and the table gains exactly the row that the
  specification describes (\<open>table_row_of\<close>: a message row with the message colour on
  its Result and Notes items whatever the Result, another row green on Result exactly for
  \<^verbatim>\<open>Pass\<close>, red exactly for \<^verbatim>\<open>Fail\<close>, no colour otherwise), its other rows being kept.
\<close>

theorem add_data_to_table_row:
  "fst (scan_msg row_data (False, n)) = is_message_row row_data \<and>
   mset (tableItems (data_table (add_data_to_table collate row_data w))) =
     add_mset (table_row_of row_data) (mset (tableItems (data_table w)))"
  by (simp add: scan_msg_eq is_message_row_def add_data_to_table_eq mset_sort_rows)

text \<open>
  Claim C2.  Importing a file that opens and whose reader yields \<open>N\<close> records and then
  stops: the handler returns; the rows that were in the table are gone and the table
  holds one row per record, so \<open>N\<close> rows, the first line being a record like the others;
  the rows are in ascending order of the first column; the counter of invalid packets is
  zero and the counter of messages, set to zero before the rows are added, counts the
  \<^verbatim>\<open>Msg\<close> fields of this file only; the status bar and the detail pane report \<open>N\<close>.
\<close>

theorem import_well_formed_csv:
  assumes "getOpenFileName env \<noteq> []"
    and "open_file env (getOpenFileName env) = Inr f"
    and "failure f = None"
  shows "\<exists>w'. import_table_from_csv collate format_n env w = Inr w' \<and>
           mset (tableItems (data_table w')) = mset (map table_row_of (records f)) \<and>
           rowCount (data_table w') = length (records f) \<and>
           first_column_ascending collate (tableItems (data_table w')) \<and>
           invalid_packet_count w' = 0 \<and>
           messages_count w' = count_msg (records f) \<and>
           csv_file_name w' = Some (basename (getOpenFileName env)) \<and>
           status_bar w' = ''File: '' @ apos @ basename (getOpenFileName env) @ apos @ ''. ''
                             @ ''Total records: '' @ format_n (length (records f)) @ ''.'' \<and>
           inst_textbox w' = ''File: '' @ apos @ basename (getOpenFileName env) @ apos
                             @ '' successfully imported\<newline>\<newline>''
                             @ ''- Total records:   '' @ rjust 8 (format_n (length (records f)))
                             @ ''\<newline>''"
  using assms by (rule import_completed)

lemma two_records_opens:
  "getOpenFileName two_records \<noteq> []"
  "open_file two_records (getOpenFileName two_records) =
     Inr \<lparr>records = [[''T2'', ''Pass'', ''ok''], [''T1'', ''Fail'', ''low'']], failure = None\<rparr>"
  by (simp_all add: two_records_def)

lemma one_record_opens:
  "getOpenFileName one_record \<noteq> []"
  "open_file one_record (getOpenFileName one_record) =
     Inr \<lparr>records = [[''T9'', ''Msg'', ''note'']], failure = None\<rparr>"
  by (simp_all add: one_record_def)

lemma malformed_opens:
  "getOpenFileName malformed \<noteq> []"
  "open_file malformed (getOpenFileName malformed) =
     Inr \<lparr>records = [[''T1'', ''Pass'', ''ok'']],
          failure = Some (2, Exc CsvError ''field larger than field limit (131072)'')\<rparr>"
  by (simp_all add: malformed_def)

lemma missing_fails:
  "getOpenFileName missing \<noteq> []"
  "open_file missing (getOpenFileName missing) = Inl no_such_file"
  "exc_class_of no_such_file \<noteq> CsvError"
  by (simp_all add: missing_def no_such_file_def)

theorem import_well_formed_csv_witness:
  "\<exists>w'. import_table_from_csv c_collate str_nat two_records one_row_window = Inr w' \<and>
        rowCount (data_table w') = 2 \<and>
        first_column_ascending c_collate (tableItems (data_table w')) \<and>
        messages_count w' = 0 \<and>
        status_bar w' = ''File: 'run2.csv'. Total records: 2.''"
proof -
  from import_well_formed_csv [OF two_records_opens, of c_collate str_nat one_row_window]
  obtain w' where "import_table_from_csv c_collate str_nat two_records one_row_window = Inr w'"
    and "rowCount (data_table w') = 2"
    and "first_column_ascending c_collate (tableItems (data_table w'))"
    and "messages_count w' = count_msg [[''T2'', ''Pass'', ''ok''], [''T1'', ''Fail'', ''low'']]"
    and "status_bar w' = ''File: '' @ apos @ basename (getOpenFileName two_records) @ apos @ ''. ''
                             @ ''Total records: '' @ str_nat 2 @ ''.''"
    by (auto simp: numeral_2_eq_2)
  then show ?thesis
    by (simp add: count_msg_def two_records_def basename_def apos_def str_nat.simps
          digit_char_def)
qed

text \<open>
  Claim C7.  Of two imports in a row, the second replaces the rows of the first: when
  the second file opens, the table afterwards holds the rows of the records read from
  the second file and no others, so their number and not the sum.  (When the reader of
  the second file raises, these are the records it had yielded.)
\<close>

theorem second_import_replaces_first:
  assumes "import_table_from_csv collate format_n env1 w = Inr w1"
    and "getOpenFileName env2 \<noteq> []"
    and "open_file env2 (getOpenFileName env2) = Inr f2"
  shows "\<exists>w2. import_table_from_csv collate format_n env2 w1 = Inr w2 \<and>
           rowCount (data_table w2) = length (records f2) \<and>
           mset (tableItems (data_table w2)) = mset (map table_row_of (records f2))"
proof (cases "failure f2")
  case None
  from import_completed [OF assms(2,3) None, of collate format_n w1] show ?thesis
    by blast
next
  case (Some a)
  then obtain n e where "failure f2 = Some (n, e)"
    by (cases a) simp
  from import_read_failure [OF assms(2,3) this, of collate format_n w1] show ?thesis
    by blast
qed

theorem second_import_replaces_first_witness:
  "\<exists>w1 w2. import_table_from_csv c_collate str_nat two_records init_window = Inr w1 \<and>
          rowCount (data_table w1) = 2 \<and>
          import_table_from_csv c_collate str_nat one_record w1 = Inr w2 \<and>
          rowCount (data_table w2) = 1"
proof -
  from import_completed [OF two_records_opens, of c_collate str_nat init_window]
  obtain w1 where w1: "import_table_from_csv c_collate str_nat two_records init_window = Inr w1"
    and n1: "rowCount (data_table w1) = 2"
    by (auto simp: numeral_2_eq_2)
  from second_import_replaces_first [OF w1 one_record_opens]
  obtain w2 where "import_table_from_csv c_collate str_nat one_record w1 = Inr w2"
    and "rowCount (data_table w2) = 1"
    by auto
  with w1 n1 show ?thesis
    by blast
qed

text \<open>
  Claim C1, as the specification states it, fails: a failed import does not leave the
  table empty.  When the reader raises at the second line, the row of the first record
  stays; when the file cannot be opened, the rows of the earlier import stay.  Both
  imports show their error in the status bar.
\<close>

theorem failed_import_keeps_rows:
  "rows_after (import_table_from_csv c_collate str_nat malformed init_window) = Some 1 \<and>
   map_sum id status_bar (import_table_from_csv c_collate str_nat malformed init_window) =
     Inr ''Error reading CSV file at line 2: field larger than field limit (131072)'' \<and>
   rows_after (import_table_from_csv c_collate str_nat missing one_row_window) = Some 1 \<and>
   map_sum id status_bar (import_table_from_csv c_collate str_nat missing one_row_window) =
     Inr (''File not found: '' @ exc_str no_such_file)"
proof -
  from import_read_failure [OF malformed_opens, of 2 _ c_collate str_nat init_window]
  obtain w' where "import_table_from_csv c_collate str_nat malformed init_window = Inr w'"
    and "rowCount (data_table w') = 1"
    and "status_bar w' = failure_message 2 (Exc CsvError ''field larger than field limit (131072)'')"
    by auto
  then have a: "rows_after (import_table_from_csv c_collate str_nat malformed init_window) = Some 1"
    "map_sum id status_bar (import_table_from_csv c_collate str_nat malformed init_window) =
       Inr ''Error reading CSV file at line 2: field larger than field limit (131072)''"
    by (simp_all add: rows_after_def failure_message_def str_nat.simps digit_char_def)
  from import_open_failure [OF missing_fails, of c_collate str_nat one_row_window 0]
  obtain w'' where "import_table_from_csv c_collate str_nat missing one_row_window = Inr w''"
    and "data_table w'' = data_table one_row_window"
    and "status_bar w'' = failure_message 0 no_such_file"
    by auto
  then have b: "rows_after (import_table_from_csv c_collate str_nat missing one_row_window) = Some 1"
    "map_sum id status_bar (import_table_from_csv c_collate str_nat missing one_row_window) =
       Inr (''File not found: '' @ exc_str no_such_file)"
    by (simp_all add: rows_after_def failure_message_def one_row_window_def rowCount_def
          no_such_file_def)
  from a b show ?thesis
    by simp
qed

text \<open>
  Claim C1, amended.  Every import that fails with an exception returns (the exception
  does not leave the handler) and shows the error in the status bar and, after the
  heading with the file name, in the detail pane; for a malformed file the message names
  the line the reader had reached.  The table is then as follows: when the file could not
  be opened, it is unchanged; when the reader raised, the rows that were there are gone
  and the table holds the rows of the records read before the failure.  (\<^verbatim>\<open>open\<close>
  raises no \<^verbatim>\<open>csv.Error\<close>.)
\<close>

theorem import_failure_reported:
  assumes "getOpenFileName env \<noteq> []"
  shows "(\<forall>e. open_file env (getOpenFileName env) = Inl e \<longrightarrow> exc_class_of e \<noteq> CsvError \<longrightarrow>
            (\<exists>w'. import_table_from_csv collate format_n env w = Inr w' \<and>
                  data_table w' = data_table w \<and>
                  status_bar w' = failure_message 0 e \<and>
                  inst_textbox w' =
                    error_pane (basename (getOpenFileName env)) (failure_message 0 e))) \<and>
         (\<forall>f n e. open_file env (getOpenFileName env) = Inr f \<longrightarrow> failure f = Some (n, e) \<longrightarrow>
            (\<exists>w'. import_table_from_csv collate format_n env w = Inr w' \<and>
                  mset (tableItems (data_table w')) = mset (map table_row_of (records f)) \<and>
                  rowCount (data_table w') = length (records f) \<and>
                  status_bar w' = failure_message n e \<and>
                  inst_textbox w' =
                    error_pane (basename (getOpenFileName env)) (failure_message n e)))"
  using import_open_failure [OF assms] import_read_failure [OF assms]
  by blast

theorem import_failure_reported_witness:
  "\<exists>w'. import_table_from_csv c_collate str_nat malformed one_row_window = Inr w' \<and>
        mset (tableItems (data_table w')) = {#table_row_of [''T1'', ''Pass'', ''ok'']#} \<and>
        status_bar w' = ''Error reading CSV file at line 2: field larger than field limit (131072)''"
proof -
  from import_failure_reported [OF malformed_opens(1), of c_collate str_nat one_row_window]
    malformed_opens(2)
  obtain w' where "import_table_from_csv c_collate str_nat malformed one_row_window = Inr w'"
    and "mset (tableItems (data_table w')) = mset (map table_row_of [[''T1'', ''Pass'', ''ok'']])"
    and "status_bar w' = failure_message 2 (Exc CsvError ''field larger than field limit (131072)'')"
    by fastforce
  then show ?thesis
    by (simp add: failure_message_def str_nat.simps digit_char_def)
qed

subsection \<open>Selecting a row\<close>

lemma startswith_iff: "startswith s p \<longleftrightarrow> (\<exists>rest. s = p @ rest)"
  by (induction s p rule: startswith.induct) auto

lemma str_contains_iff: "str_contains sub s \<longleftrightarrow> (\<exists>pre post. s = pre @ sub @ post)"
proof (induction s)
  case Nil
  then show ?case by auto
next
  case (Cons c cs)
  show ?case
  proof
    assume "str_contains sub (c # cs)"
    then consider "startswith (c # cs) sub" | "str_contains sub cs" by auto
    then show "\<exists>pre post. c # cs = pre @ sub @ post"
    proof cases
      case 1
      then obtain rest where "c # cs = sub @ rest" by (auto simp: startswith_iff)
      then have "c # cs = [] @ sub @ rest" by simp
      then show ?thesis by blast
    next
      case 2
      with Cons.IH obtain pre post where "cs = pre @ sub @ post" by auto
      then have "c # cs = (c # pre) @ sub @ post" by simp
      then show ?thesis by blast
    qed
  next
    assume "\<exists>pre post. c # cs = pre @ sub @ post"
    then obtain pre post where eq: "c # cs = pre @ sub @ post" by auto
    show "str_contains sub (c # cs)"
    proof (cases pre)
      case Nil
      with eq have "startswith (c # cs) sub" by (auto simp: startswith_iff)
      then show ?thesis by simp
    next
      case (Cons p ps)
      with eq have "cs = ps @ sub @ post" by simp
      with Cons.IH have "str_contains sub cs" by auto
      then show ?thesis by simp
    qed
  qed
qed

lemma length_table_row_of: "length (table_row_of r) = 3"
  by (simp add: table_row_of_eq)

lemma table_row_of_missing:
  assumes "length r \<le> col" and "col < 3"
  shows "table_row_of r ! col = None"
proof -
  from assms(2) consider "col = 0" | "col = 1" | "col = 2"
    by linarith
  then show ?thesis
    using assms(1) by cases (simp_all add: table_row_of_eq)
qed

lemma item_of_row:
  "sel < rowCount t \<Longrightarrow> tableItems t ! sel = r \<Longrightarrow>
     item t sel col = (if col < length r then r ! col else None)"
  by (simp add: item_def)

lemma update_inst_missing:
  assumes "item (data_table w) sel 1 = None \<or> item (data_table w) sel 2 = None"
  shows "update_inst format_n (sel # others) w = Inl none_has_no_text"
  using assms
  by (auto simp: update_inst_def columns_index_Result columns_index_Notes
        split: option.splits)

lemma update_inst_present:
  assumes "item (data_table w) sel 1 = Some result_item"
    and "item (data_table w) sel 2 = Some notes_item"
  shows "update_inst format_n (sel # others) w =
     (if str_contains ''Msg'' (cell_text result_item)
      then Inr (w\<lparr>inst_textbox := ''Message:\<newline>- '' @ cell_text notes_item\<rparr>)
      else Inr (w\<lparr>inst_textbox := cell_text notes_item,
                   status_bar := ''File: '' @ apos @ str_opt (csv_file_name w) @ apos @ '', ''
                     @ ''Selected record: '' @ format_n (sel + 1)
                     @ '' of '' @ format_n (rowCount (data_table w)) @ ''.''\<rparr>))"
  using assms
  by (simp add: update_inst_def columns_index_Result columns_index_Notes update_status_bar_def)

lemma added_row_position:
  "\<exists>sel < rowCount (data_table (add_data_to_table collate row_data w)).
      tableItems (data_table (add_data_to_table collate row_data w)) ! sel = table_row_of row_data"
proof -
  let ?rows = "tableItems (data_table (add_data_to_table collate row_data w))"
  have "mset ?rows = add_mset (table_row_of row_data) (mset (tableItems (data_table w)))"
    by (simp add: add_data_to_table_eq mset_sort_rows)
  then have "table_row_of row_data \<in># mset ?rows"
    by simp
  then have "table_row_of row_data \<in> set ?rows"
    by simp
  then show ?thesis
    by (auto simp: in_set_conv_nth rowCount_def)
qed


text \<open>
  Claim C9.  The handler of a selection change is safe exactly when the selected row has
  an item in both the Result and the Notes column: then it returns; when one of them is
  absent it ends in the \<^verbatim>\<open>AttributeError\<close> of \<^verbatim>\<open>None.text()\<close>, which nothing
  in the method catches.  A record of fewer than three fields gives such a row: the row
  it adds to the table has no item in the columns the record has no field for, and
  selecting it ends in that error.
\<close>

theorem update_inst_needs_both_items:
  "(\<forall>result_item notes_item. item (data_table w) sel 1 = Some result_item \<longrightarrow>
       item (data_table w) sel 2 = Some notes_item \<longrightarrow>
       (\<exists>w'. update_inst format_n (sel # others) w = Inr w')) \<and>
   (item (data_table w) sel 1 = None \<or> item (data_table w) sel 2 = None \<longrightarrow>
       update_inst format_n (sel # others) w = Inl none_has_no_text) \<and>
   (length row_data < 3 \<longrightarrow>
       (\<exists>row < rowCount (data_table (add_data_to_table collate row_data w)).
          tableItems (data_table (add_data_to_table collate row_data w)) ! row =
            table_row_of row_data \<and>
          (\<forall>col. length row_data \<le> col \<longrightarrow>
             item (data_table (add_data_to_table collate row_data w)) row col = None) \<and>
          update_inst format_n [row] (add_data_to_table collate row_data w) =
            Inl none_has_no_text))"
proof (intro conjI allI impI)
  fix result_item notes_item
  assume "item (data_table w) sel 1 = Some result_item" "item (data_table w) sel 2 = Some notes_item"
  from update_inst_present [OF this] show "\<exists>w'. update_inst format_n (sel # others) w = Inr w'"
    by auto
next
  assume "item (data_table w) sel 1 = None \<or> item (data_table w) sel 2 = None"
  then show "update_inst format_n (sel # others) w = Inl none_has_no_text"
    by (rule update_inst_missing)
next
  let ?w' = "add_data_to_table collate row_data w"
  assume short: "length row_data < 3"
  from added_row_position obtain row where row: "row < rowCount (data_table ?w')"
    and at: "tableItems (data_table ?w') ! row = table_row_of row_data"
    by blast
  have none: "item (data_table ?w') row col = None" if "length row_data \<le> col" for col
    using that item_of_row [OF row at, of col]
    by (simp add: length_table_row_of table_row_of_missing)
  from short have "item (data_table ?w') row 2 = None"
    by (intro none) simp
  then have "update_inst format_n [row] ?w' = Inl none_has_no_text"
    by (intro update_inst_missing) simp
  with row at none
  show "\<exists>row < rowCount (data_table ?w').
          tableItems (data_table ?w') ! row = table_row_of row_data \<and>
          (\<forall>col. length row_data \<le> col \<longrightarrow> item (data_table ?w') row col = None) \<and>
          update_inst format_n [row] ?w' = Inl none_has_no_text"
    by blast
qed

theorem update_inst_needs_both_items_witness:
  "length [''T5'', ''Pass''] < (3::nat) \<and>
   (\<exists>row. item (data_table (add_data_to_table c_collate [''T5'', ''Pass''] init_window)) row 2
            = None \<and>
          update_inst str_nat [row] (add_data_to_table c_collate [''T5'', ''Pass''] init_window)
            = Inl none_has_no_text)"
proof -
  have short: "length [''T5'', ''Pass''] < (3::nat)"
    by simp
  from update_inst_needs_both_items
         [of init_window 0 str_nat "[]" "[''T5'', ''Pass'']" c_collate] short
  obtain row where
    "\<forall>col. length [''T5'', ''Pass''] \<le> col \<longrightarrow>
       item (data_table (add_data_to_table c_collate [''T5'', ''Pass''] init_window)) row col
         = None"
    and "update_inst str_nat [row] (add_data_to_table c_collate [''T5'', ''Pass''] init_window)
           = Inl none_has_no_text"
    by blast
  then have
    "item (data_table (add_data_to_table c_collate [''T5'', ''Pass''] init_window)) row 2 = None"
    and "update_inst str_nat [row] (add_data_to_table c_collate [''T5'', ''Pass''] init_window)
           = Inl none_has_no_text"
    by simp_all
  with short show ?thesis
    by blast
qed

text \<open>
  Claim C3, as the specification states it, fails on two selections.  On a message row
  the detail pane shows the message block, but the handler returns at line 291 before
  it reaches the status bar, which keeps the text of the import.  On a row that has a
  Result \<^verbatim>\<open>Pass\<close> and no Notes item, the handler shows nothing and raises.
\<close>

theorem selection_without_status:
  "map_sum id inst_textbox (update_inst str_nat [0] message_window) =
     Inr ''Message:\<newline>- note'' \<and>
   map_sum id status_bar (update_inst str_nat [0] message_window) =
     Inr ''File: 'run3.csv'. Total records: 1.'' \<and>
   update_inst str_nat [0] short_row_window = Inl none_has_no_text"
proof -
  have r: "item (data_table message_window) 0 1 =
             Some \<lparr>cell_text = ''Msg'', background = Some (QColor 33 150 243 64),
                   editable = False\<rparr>"
    and n: "item (data_table message_window) 0 2 =
             Some \<lparr>cell_text = ''note'', background = Some (QColor 33 150 243 64),
                   editable = False\<rparr>"
    by (simp_all add: item_def rowCount_def message_window_def init_window_def
          table_row_of_eq styled_item_def)
  have s: "status_bar message_window = ''File: 'run3.csv'. Total records: 1.''"
    by (simp add: message_window_def init_window_def)
  have "item (data_table short_row_window) 0 2 = None"
    by (simp add: item_def rowCount_def short_row_window_def init_window_def table_row_of_eq)
  then have "update_inst str_nat [0] short_row_window = Inl none_has_no_text"
    by (intro update_inst_missing) simp
  with update_inst_present [OF r n, of str_nat "[]"] s show ?thesis
    by simp
qed

text \<open>
  Claim C3, amended.  On a selection change whose selected row has an item in both the
  Result and the Notes column: when the Result text contains \<^verbatim>\<open>Msg\<close>, the detail
  pane shows the block \<^verbatim>\<open>Message:\<close> with the Notes text in place of the raw text;
  otherwise the detail pane shows the Notes text as it is and the status bar shows the
  file name and the selected row's number, counted from one, out of the number of rows,
  both in the locale's number format.
\<close>

theorem update_inst_shows_detail:
  assumes "item (data_table w) sel 1 = Some result_item"
    and "item (data_table w) sel 2 = Some notes_item"
  shows "(str_contains ''Msg'' (cell_text result_item) \<longrightarrow>
            (\<exists>w'. update_inst format_n (sel # others) w = Inr w' \<and>
                  inst_textbox w' = ''Message:\<newline>- '' @ cell_text notes_item)) \<and>
         (\<not> str_contains ''Msg'' (cell_text result_item) \<longrightarrow>
            (\<exists>w'. update_inst format_n (sel # others) w = Inr w' \<and>
                  inst_textbox w' = cell_text notes_item \<and>
                  status_bar w' =
                    ''File: '' @ apos @ str_opt (csv_file_name w) @ apos @ '', ''
                    @ ''Selected record: '' @ format_n (sel + 1)
                    @ '' of '' @ format_n (rowCount (data_table w)) @ ''.''))"
  by (simp add: update_inst_present [OF assms])

theorem update_inst_shows_detail_witness:
  "\<exists>w'. update_inst str_nat [0] one_row_window = Inr w' \<and>
        inst_textbox w' = ''first'' \<and>
        status_bar w' = ''File: 'run1.csv', Selected record: 1 of 1.''"
proof -
  have r: "item (data_table one_row_window) 0 1 =
             Some \<lparr>cell_text = ''Pass'', background = Some (QColor 76 175 80 64),
                   editable = False\<rparr>"
    and n: "item (data_table one_row_window) 0 2 =
             Some \<lparr>cell_text = ''first'', background = None, editable = False\<rparr>"
    by (simp_all add: item_def rowCount_def one_row_window_def init_window_def
          table_row_of_eq styled_item_def)
  have "\<not> str_contains ''Msg'' ''Pass''"
    by simp
  with update_inst_shows_detail [OF r n, of str_nat "[]"]
  obtain w' where "update_inst str_nat [0] one_row_window = Inr w'"
    and "inst_textbox w' = ''first''"
    and "status_bar w' =
           ''File: '' @ apos @ str_opt (csv_file_name one_row_window) @ apos @ '', ''
           @ ''Selected record: '' @ str_nat (0 + 1)
           @ '' of '' @ str_nat (rowCount (data_table one_row_window)) @ ''.''"
    by auto
  then show ?thesis
    by (simp add: one_row_window_def init_window_def rowCount_def str_opt_def apos_def
          str_nat.simps digit_char_def)
qed

subsection \<open>Discovering instruments\<close>

lemma length_split: "length (split sep s) = Suc (length (filter (\<lambda>c. c = sep) s))"
  by (induction s) (auto split: list.splits)

lemma filter_replace:
  assumes "old \<noteq> sep" and "sep \<notin> set new"
  shows "filter (\<lambda>c. c = sep) (replace old new s) = filter (\<lambda>c. c = sep) s"
proof -
  from assms(2) have "filter (\<lambda>c. c = sep) new = []"
    by (induction new) auto
  with assms(1) show ?thesis
    by (induction s) (auto simp: replace_def)
qed

lemma length_split_fn_inst:
  "length (split CHR '','' (replace CHR '':'' [] (replace CHR '' '' ''_'' s))) =
     length (split CHR '','' s)"
  by (simp add: length_split filter_replace)

lemma json_filename_of_Inl:
  "length (split CHR '','' s) < 2 \<Longrightarrow>
     json_filename_of s = Inl (Exc IndexError ''list index out of range'')"
  using length_split_fn_inst [of s]
  by (auto simp: json_filename_of_def py_index_def Let_def)

lemma json_filename_of_Inr:
  "2 \<le> length (split CHR '','' s) \<Longrightarrow> \<exists>fn. json_filename_of s = Inr fn"
  using length_split_fn_inst [of s]
  by (auto simp: json_filename_of_def py_index_def Let_def)

lemma button_label_Inl:
  "length (split CHR '','' s) < 4 \<Longrightarrow>
     button_label s = Inl (Exc IndexError ''list index out of range'')"
  by (auto simp: button_label_def py_index_def Let_def)

lemma load_config_success:
  assumes "json_load env fn = Inr (JsonObject d)"
    and "button_label inst_id = Inr label"
  shows "load_config env inst_id fn w =
           (w\<lparr>inst_button_container := inst_button_container w @ [label],
              console := console w @ [''Connect Command: '' @ str_opt (d ''connect''),
                                      ''ID Command: '' @ str_opt (d ''id''),
                                      ''Close Command: '' @ str_opt (d ''close'')],
              io_trace := io_trace w @ [JsonLoad fn, AddWidget label]\<rparr>, None)"
  using assms by (simp add: load_config_def Let_def print_def emit_def)

lemma load_config_no_label:
  assumes "button_label inst_id = Inl e"
  shows "inst_button_container (fst (load_config env inst_id fn w)) = inst_button_container w
         \<and> snd (load_config env inst_id fn w) \<noteq> None"
  using assms
  by (auto simp: load_config_def Let_def print_def emit_def split: sum.splits json_doc.splits)

lemma load_config_fields_short:
  assumes "json_load env fn = Inr (JsonObject d)"
    and "button_label inst_id = Inl e"
  shows "snd (load_config env inst_id fn w) = Some e"
  using assms by (simp add: load_config_def Let_def)

lemma load_config_buttons:
  "\<exists>bs. inst_button_container (fst (load_config env inst_id fn w)) = inst_button_container w @ bs
        \<and> (snd (load_config env inst_id fn w) \<noteq> None \<longrightarrow> bs = [])"
  by (auto simp: load_config_def Let_def print_def emit_def split: sum.splits json_doc.splits)

lemma probe_buttons:
  "\<exists>bs. inst_button_container (fst (probe env address w)) = inst_button_container w @ bs
        \<and> (snd (probe env address w) \<noteq> None \<longrightarrow> bs = [])"
proof -
  have lc: "\<exists>bs. inst_button_container (fst (load_config env inst_id fn w5)) =
                    inst_button_container w @ bs
                  \<and> ((\<exists>y. snd (load_config env inst_id fn w5) = Some y) \<longrightarrow> bs = [])"
    if "inst_button_container w5 = inst_button_container w" for inst_id fn w5
    using load_config_buttons [of env inst_id fn w5] that by auto
  show ?thesis
    unfolding probe_def Let_def
    by (auto simp: print_def emit_def intro!: lc split: option.splits sum.splits)
qed

lemma probe_connected:
  assumes "probes_ok env address response"
  shows "probe env address w =
     (case json_filename_of (strip response) of
        Inl e \<Rightarrow>
          (w\<lparr>io_trace := io_trace w @ [OpenResource address, Query address ''*IDN?'',
                                        Write address '':KEY:FORCe'', Close address]\<rparr>, Some e)
      | Inr fn \<Rightarrow>
          (if path_exists env fn
           then load_config env (strip response) fn
                  (w\<lparr>console := console w @ [''JSON filename: '' @ fn],
                     io_trace := io_trace w @ [OpenResource address, Query address ''*IDN?'',
                        Write address '':KEY:FORCe'', Close address, PathExists fn]\<rparr>)
           else (w\<lparr>console := console w @ [''JSON filename: '' @ fn,
                                              ''Configuration file '' @ fn @ '' not found.''],
                   io_trace := io_trace w @ [OpenResource address, Query address ''*IDN?'',
                        Write address '':KEY:FORCe'', Close address, PathExists fn]\<rparr>, None)))"
  using assms
  by (simp add: probe_def probes_ok_def Let_def print_def emit_def split: sum.splits)

lemma probe_config_missing:
  assumes "probes_ok env address response"
    and "json_filename_of (strip response) = Inr fn"
    and "\<not> path_exists env fn"
  shows "probe env address w =
     (w\<lparr>console := console w @ [''JSON filename: '' @ fn,
                                  ''Configuration file '' @ fn @ '' not found.''],
        io_trace := io_trace w @ [OpenResource address, Query address ''*IDN?'',
                        Write address '':KEY:FORCe'', Close address, PathExists fn]\<rparr>, None)"
  using assms(2,3) by (simp add: probe_connected [OF assms(1)])

lemma probe_success:
  assumes "probes_ok env address response"
    and "json_filename_of (strip response) = Inr fn"
    and "path_exists env fn"
    and "json_load env fn = Inr (JsonObject d)"
    and "button_label (strip response) = Inr label"
  shows "probe env address w =
     (w\<lparr>inst_button_container := inst_button_container w @ [label],
        console := console w @ [''JSON filename: '' @ fn,
                                ''Connect Command: '' @ str_opt (d ''connect''),
                                ''ID Command: '' @ str_opt (d ''id''),
                                ''Close Command: '' @ str_opt (d ''close'')],
        io_trace := io_trace w @ [OpenResource address, Query address ''*IDN?'',
                        Write address '':KEY:FORCe'', Close address, PathExists fn,
                        JsonLoad fn, AddWidget label]\<rparr>, None)"
  using assms(2,3)
  by (simp add: probe_connected [OF assms(1)] load_config_success [OF assms(4,5)])

lemma probe_fields_short:
  assumes "probes_ok env address response"
    and "json_filename_of (strip response) = Inr fn"
    and "path_exists env fn"
    and "json_load env fn = Inr (JsonObject d)"
    and "button_label (strip response) = Inl e"
  shows "snd (probe env address w) = Some e"
  using assms(2,3)
  by (simp add: probe_connected [OF assms(1)] load_config_fields_short [OF assms(4,5)])

lemma probe_no_label:
  assumes "inst_query env address ''*IDN?'' = Inr response"
    and "button_label (strip response) = Inl e"
  shows "inst_button_container (fst (probe env address w)) = inst_button_container w"
proof -
  have lc: "inst_button_container (fst (load_config env (strip response) fn w5)) =
              inst_button_container w"
    if "inst_button_container w5 = inst_button_container w" for fn w5
    using load_config_no_label [OF assms(2), of env fn w5] that by simp
  show ?thesis
    using assms(1) unfolding probe_def Let_def
    by (auto simp: print_def emit_def lc split: option.splits sum.splits)
qed

lemma find_inst_loop_raises:
  assumes "snd (probe env address w) = Some e"
  shows "find_inst_loop env (address # rest) w =
           find_inst_loop env rest (print (''Exception: '' @ exc_str e) (fst (probe env address w)))"
  using assms by (cases "probe env address w") simp

lemma find_inst_loop_passes:
  assumes "snd (probe env address w) = None"
  shows "find_inst_loop env (address # rest) w = find_inst_loop env rest (fst (probe env address w))"
  using assms by (cases "probe env address w") simp

lemma find_inst_loop_buttons:
  "\<exists>bs. inst_button_container (find_inst_loop env addresses w) = inst_button_container w @ bs"
proof (induction addresses arbitrary: w)
  case Nil
  then show ?case by simp
next
  case (Cons a rest)
  obtain w' r where p: "probe env a w = (w', r)"
    by (cases "probe env a w")
  from probe_buttons [of env a w] p obtain bs
    where bs: "inst_button_container w' = inst_button_container w @ bs"
    by auto
  show ?case
  proof (cases r)
    case None
    with p Cons.IH [of w'] bs show ?thesis by auto
  next
    case (Some e)
    with p Cons.IH [of "print (''Exception: '' @ exc_str e) w'"] bs show ?thesis
      by (auto simp: print_def)
  qed
qed

lemma find_inst_loop_good:
  assumes "good \<in> set addresses"
    and "probes_ok env good response"
    and "json_filename_of (strip response) = Inr fn"
    and "path_exists env fn"
    and "json_load env fn = Inr (JsonObject d)"
    and "button_label (strip response) = Inr label"
  shows "label \<in> set (inst_button_container (find_inst_loop env addresses w))"
  using assms(1)
proof (induction addresses arbitrary: w)
  case Nil
  then show ?case by simp
next
  case (Cons a rest)
  show ?case
  proof (cases "a = good")
    case True
    let ?w' = "fst (probe env good w)"
    from probe_success [OF assms(2-6), of w]
    have ok: "snd (probe env good w) = None"
      and lbl: "label \<in> set (inst_button_container ?w')"
      by simp_all
    from find_inst_loop_buttons [of env rest ?w'] lbl
    have "label \<in> set (inst_button_container (find_inst_loop env rest ?w'))"
      by auto
    with True find_inst_loop_passes [OF ok] show ?thesis
      by simp
  next
    case False
    with Cons.prems have "good \<in> set rest" by simp
    from Cons.IH [OF this] show ?thesis
      by (cases "probe env a w") (auto split: option.splits)
  qed
qed



lemma bench_2:
  "probes_ok bench ''GPIB0::2::INSTR'' ''TEKTRONIX,TDS 210,0,CF:91.1CT FV:v1.16\<newline>''"
  "strip ''TEKTRONIX,TDS 210,0,CF:91.1CT FV:v1.16\<newline>'' =
     ''TEKTRONIX,TDS 210,0,CF:91.1CT FV:v1.16''"
  "json_filename_of ''TEKTRONIX,TDS 210,0,CF:91.1CT FV:v1.16'' = Inr ''TEKTRONIX_TDS_210.json''"
  "path_exists bench ''TEKTRONIX_TDS_210.json''"
  "json_load bench ''TEKTRONIX_TDS_210.json'' =
     Inr (JsonObject (map_of [(''connect'', '':SYST:REM''), (''id'', ''*IDN?''),
                              (''close'', '':SYST:LOC'')]))"
  "button_label ''TEKTRONIX,TDS 210,0,CF:91.1CT FV:v1.16'' =
     Inr ''TEKTRONIX TDS 210\<newline>S/N: 0\<newline>Ver: CF:91.1CT FV:v1.16''"
  by (simp_all add: probes_ok_def bench_def bench_idn_def strip_def is_space_def
        json_filename_of_def replace_def py_index_def button_label_def)

lemma bench_3:
  "probes_ok bench ''GPIB0::3::INSTR'' ''ACME,X1,7,1.0\<newline>''"
  "strip ''ACME,X1,7,1.0\<newline>'' = ''ACME,X1,7,1.0''"
  "json_filename_of ''ACME,X1,7,1.0'' = Inr ''ACME_X1.json''"
  "\<not> path_exists bench ''ACME_X1.json''"
  by (simp_all add: probes_ok_def bench_def bench_idn_def strip_def is_space_def
        json_filename_of_def replace_def py_index_def)

lemma bench_4:
  "probes_ok bench ''GPIB0::4::INSTR'' ''TEKTRONIX,TDS 210\<newline>''"
  "inst_query bench ''GPIB0::4::INSTR'' ''*IDN?'' = Inr ''TEKTRONIX,TDS 210\<newline>''"
  "strip ''TEKTRONIX,TDS 210\<newline>'' = ''TEKTRONIX,TDS 210''"
  "length (split CHR '','' ''TEKTRONIX,TDS 210'') < 4"
  "json_filename_of ''TEKTRONIX,TDS 210'' = Inr ''TEKTRONIX_TDS_210.json''"
  by (simp_all add: probes_ok_def bench_def bench_idn_def strip_def is_space_def
        json_filename_of_def replace_def py_index_def)

lemma bench_1:
  "snd (probe bench ''GPIB0::1::INSTR'' w) = Some (Exc OtherException ''VI_ERROR_TMO'')"
  by (simp add: probe_def bench_def Let_def)

text \<open>
  Claim C8.  An instrument that answers the probe and whose configuration file does not
  exist: the probe prints the line \<^verbatim>\<open>Configuration file ... not found.\<close> after the
  file name, raises nothing, adds no selector control, and the loop goes on with the
  addresses that remain.
\<close>

theorem missing_config_skipped:
  assumes "probes_ok env address response"
    and "json_filename_of (strip response) = Inr fn"
    and "\<not> path_exists env fn"
  shows "probe env address w =
           (w\<lparr>console := console w @ [''JSON filename: '' @ fn,
                                        ''Configuration file '' @ fn @ '' not found.''],
              io_trace := io_trace w @ [OpenResource address, Query address ''*IDN?'',
                            Write address '':KEY:FORCe'', Close address, PathExists fn]\<rparr>,
            None) \<and>
         inst_button_container (fst (probe env address w)) = inst_button_container w \<and>
         find_inst_loop env (address # rest) w =
           find_inst_loop env rest
             (w\<lparr>console := console w @ [''JSON filename: '' @ fn,
                                          ''Configuration file '' @ fn @ '' not found.''],
                io_trace := io_trace w @ [OpenResource address, Query address ''*IDN?'',
                              Write address '':KEY:FORCe'', Close address, PathExists fn]\<rparr>)"
  by (simp add: probe_config_missing [OF assms])

theorem missing_config_skipped_witness:
  "console (fst (probe bench ''GPIB0::3::INSTR'' init_window)) =
     [''JSON filename: ACME_X1.json'', ''Configuration file ACME_X1.json not found.''] \<and>
   snd (probe bench ''GPIB0::3::INSTR'' init_window) = None \<and>
   inst_button_container (fst (probe bench ''GPIB0::3::INSTR'' init_window)) = []"
proof -
  have fn: "json_filename_of (strip ''ACME,X1,7,1.0\<newline>'') = Inr ''ACME_X1.json''"
    by (simp add: bench_3)
  from missing_config_skipped [OF bench_3(1) fn bench_3(4), of init_window "[]"]
  show ?thesis
    by (simp add: init_window_def)
qed





text \<open>
  Claim C6.  When the resource manager lists the addresses, the scan returns.  A probe
  that raises is caught: the line \<^verbatim>\<open>Exception: ...\<close> is printed, no control is added
  for that address, and the loop goes on with the next address.  Whatever the other
  addresses of the list do, an instrument of the list whose probe succeeds has its
  selector control in the panel at the end.
\<close>

theorem scan_survives_failures:
  assumes "list_resources env = Inr addresses"
  shows "find_inst env w = Inr (find_inst_loop env addresses (w\<lparr>inst_button_container := []\<rparr>)) \<and>
         (\<forall>address rest w0 e. snd (probe env address w0) = Some e \<longrightarrow>
            find_inst_loop env (address # rest) w0 =
              find_inst_loop env rest
                (print (''Exception: '' @ exc_str e) (fst (probe env address w0))) \<and>
            inst_button_container (fst (probe env address w0)) = inst_button_container w0) \<and>
         (\<forall>good response fn d label.
            good \<in> set addresses \<longrightarrow> probes_ok env good response \<longrightarrow>
            json_filename_of (strip response) = Inr fn \<longrightarrow> path_exists env fn \<longrightarrow>
            json_load env fn = Inr (JsonObject d) \<longrightarrow>
            button_label (strip response) = Inr label \<longrightarrow>
            label \<in> set (inst_button_container
                           (find_inst_loop env addresses (w\<lparr>inst_button_container := []\<rparr>))))"
proof (intro conjI allI impI)
  show "find_inst env w = Inr (find_inst_loop env addresses (w\<lparr>inst_button_container := []\<rparr>))"
    using assms by (simp add: find_inst_def)
next
  fix address rest w0 e
  assume r: "snd (probe env address w0) = Some e"
  then show "find_inst_loop env (address # rest) w0 =
               find_inst_loop env rest
                 (print (''Exception: '' @ exc_str e) (fst (probe env address w0)))"
    by (rule find_inst_loop_raises)
  from probe_buttons [of env address w0] r
  show "inst_button_container (fst (probe env address w0)) = inst_button_container w0"
    by auto
next
  fix good response fn d label
  assume "good \<in> set addresses" "probes_ok env good response"
    "json_filename_of (strip response) = Inr fn" "path_exists env fn"
    "json_load env fn = Inr (JsonObject d)" "button_label (strip response) = Inr label"
  then show "label \<in> set (inst_button_container
                              (find_inst_loop env addresses (w\<lparr>inst_button_container := []\<rparr>)))"
    by (rule find_inst_loop_good)
qed

theorem scan_survives_failures_witness:
  "snd (probe bench ''GPIB0::1::INSTR'' (init_window\<lparr>inst_button_container := []\<rparr>)) =
     Some (Exc OtherException ''VI_ERROR_TMO'') \<and>
   (\<exists>w'. find_inst bench init_window = Inr w' \<and>
         ''TEKTRONIX TDS 210\<newline>S/N: 0\<newline>Ver: CF:91.1CT FV:v1.16''
           \<in> set (inst_button_container w'))"
proof -
  have l: "list_resources bench =
             Inr [''GPIB0::1::INSTR'', ''GPIB0::2::INSTR'', ''GPIB0::3::INSTR'',
                  ''GPIB0::4::INSTR'', ''GPIB0::5::INSTR'']"
    by (simp add: bench_def)
  have g: "''GPIB0::2::INSTR'' \<in> set [''GPIB0::1::INSTR'', ''GPIB0::2::INSTR'',
             ''GPIB0::3::INSTR'', ''GPIB0::4::INSTR'', ''GPIB0::5::INSTR'']"
    by simp
  have fn: "json_filename_of (strip ''TEKTRONIX,TDS 210,0,CF:91.1CT FV:v1.16\<newline>'') =
              Inr ''TEKTRONIX_TDS_210.json''"
    and lbl: "button_label (strip ''TEKTRONIX,TDS 210,0,CF:91.1CT FV:v1.16\<newline>'') =
              Inr ''TEKTRONIX TDS 210\<newline>S/N: 0\<newline>Ver: CF:91.1CT FV:v1.16''"
    by (simp_all add: bench_2)
  from scan_survives_failures [OF l, of init_window] g bench_2(1) fn bench_2(4) bench_2(5) lbl
  have "\<exists>w'. find_inst bench init_window = Inr w' \<and>
         ''TEKTRONIX TDS 210\<newline>S/N: 0\<newline>Ver: CF:91.1CT FV:v1.16''
           \<in> set (inst_button_container w')"
    by blast
  with bench_1 show ?thesis
    by simp
qed

text \<open>
  Claim C10.  An instrument whose stripped identity has fewer than four comma-separated
  fields gets no selector control, whether its configuration file exists or not.  When
  the file exists and loads, it is the label that fails: the \<^verbatim>\<open>IndexError\<close> is
  caught by the loop, printed, and the scan goes on.  With fewer than two fields the
  file name itself cannot be derived: the probe raises right after closing the
  connection, before any file is looked for.
\<close>

theorem short_identity_skipped:
  assumes "inst_query env address ''*IDN?'' = Inr response"
    and "length (split CHR '','' (strip response)) < 4"
  shows "inst_button_container (fst (probe env address w)) = inst_button_container w \<and>
         (\<forall>fn d. probes_ok env address response \<longrightarrow>
            json_filename_of (strip response) = Inr fn \<longrightarrow> path_exists env fn \<longrightarrow>
            json_load env fn = Inr (JsonObject d) \<longrightarrow>
            snd (probe env address w) = Some (Exc IndexError ''list index out of range'') \<and>
            find_inst_loop env (address # rest) w =
              find_inst_loop env rest
                (print ''Exception: list index out of range'' (fst (probe env address w)))) \<and>
         (probes_ok env address response \<longrightarrow> length (split CHR '','' (strip response)) < 2 \<longrightarrow>
            json_filename_of (strip response) = Inl (Exc IndexError ''list index out of range'') \<and>
            probe env address w =
              (w\<lparr>io_trace := io_trace w @ [OpenResource address, Query address ''*IDN?'',
                                            Write address '':KEY:FORCe'', Close address]\<rparr>,
               Some (Exc IndexError ''list index out of range'')))"
proof (intro conjI allI impI)
  note lbl = button_label_Inl [OF assms(2)]
  show "inst_button_container (fst (probe env address w)) = inst_button_container w"
    using assms(1) lbl by (rule probe_no_label)
  fix fn d
  assume ok: "probes_ok env address response"
    and "json_filename_of (strip response) = Inr fn" "path_exists env fn"
    "json_load env fn = Inr (JsonObject d)"
  from probe_fields_short [OF this lbl]
  show r: "snd (probe env address w) = Some (Exc IndexError ''list index out of range'')" .
  from find_inst_loop_raises [OF r, of rest]
  show "find_inst_loop env (address # rest) w =
          find_inst_loop env rest
            (print ''Exception: list index out of range'' (fst (probe env address w)))"
    by simp
next
  assume ok: "probes_ok env address response"
    and "length (split CHR '','' (strip response)) < 2"
  then show fn: "json_filename_of (strip response) = Inl (Exc IndexError ''list index out of range'')"
    by (intro json_filename_of_Inl)
  then show "probe env address w =
          (w\<lparr>io_trace := io_trace w @ [OpenResource address, Query address ''*IDN?'',
                                        Write address '':KEY:FORCe'', Close address]\<rparr>,
           Some (Exc IndexError ''list index out of range''))"
    by (simp add: probe_connected [OF ok])
qed

theorem short_identity_skipped_witness:
  "length (split CHR '','' (strip ''TEKTRONIX,TDS 210\<newline>'')) < 4 \<and>
   path_exists bench ''TEKTRONIX_TDS_210.json'' \<and>
   inst_button_container (fst (probe bench ''GPIB0::4::INSTR'' init_window)) = [] \<and>
   snd (probe bench ''GPIB0::4::INSTR'' init_window) =
     Some (Exc IndexError ''list index out of range'')"
proof -
  have n: "length (split CHR '','' (strip ''TEKTRONIX,TDS 210\<newline>'')) < 4"
    and fn: "json_filename_of (strip ''TEKTRONIX,TDS 210\<newline>'') = Inr ''TEKTRONIX_TDS_210.json''"
    by (simp_all add: bench_4)
  from short_identity_skipped [OF bench_4(2) n, of init_window "[]"]
    bench_4(1) fn bench_2(4) bench_2(5)
  have "inst_button_container (fst (probe bench ''GPIB0::4::INSTR'' init_window)) =
          inst_button_container init_window"
    and "snd (probe bench ''GPIB0::4::INSTR'' init_window) =
          Some (Exc IndexError ''list index out of range'')"
    by blast+
  with n bench_2(4) show ?thesis
    by (simp add: init_window_def)
qed

end
